theory Spec2Isabelle
  imports Complex_Main "HOL-Library.AList" "HOL-Library.Multiset"
begin

section \<open>Patient management API (Mini_Projects/patient_management_api.py)\<close>

text \<open>
  The module keeps a collection of patient records in one JSON file and serves it through
  request handlers. Each handler loads the whole file, works on the loaded dictionary and,
  when it mutates, writes the whole dictionary back. A handler is modelled as the Python
  function it is, called with its arguments, as a function of the file's content; a
  mutating handler returns the content the file has afterwards.

  Python's \<open>float\<close> values are represented by the real numbers they denote, Python's
  unbounded \<open>int\<close> by \<open>int\<close>, \<open>str\<close> by \<open>string\<close>, and the insertion-ordered
  \<open>dict\<close> that \<open>json.loads\<close> returns by an association list.
\<close>

subsection \<open>Errors\<close>

text \<open>
  \<open>HTTPException status detail\<close> is what the handlers raise themselves.
  \<open>ValidationError\<close> is raised by the constructor of \<open>Patient\<close>. \<open>KeyError key\<close>
  is raised by \<open>p[key]\<close> on a dictionary without that key. \<open>ZeroDivisionError\<close> and
  \<open>OverflowError\<close> are raised by float arithmetic.
\<close>

datatype error =
    HTTPException nat string
  | ValidationError
  | KeyError string
  | ZeroDivisionError
  | OverflowError

definition bind_err :: "error + 'a \<Rightarrow> ('a \<Rightarrow> error + 'b) \<Rightarrow> error + 'b" where
  "bind_err r k = (case r of Inl e \<Rightarrow> Inl e | Inr x \<Rightarrow> k x)"

subsection \<open>Built-ins of Python used by the module\<close>

text \<open>
  The module relies on four operations of the language whose results are fixed by tables
  and by the arithmetic of doubles, not by the module: \<open>str.lower\<close> (the case mapping
  of every cased letter), and \<open>x ** n\<close>, \<open>x / y\<close> and \<open>round(x, ndigits)\<close> on floats
  (how a result is rounded to a double, and when the operation raises instead). They are
  taken as a parameter. Every property below is proved for every such parameter.
\<close>

record python =
  str_lower :: "string \<Rightarrow> string"
  float_pow :: "real \<Rightarrow> nat \<Rightarrow> error + real"
  float_truediv :: "real \<Rightarrow> real \<Rightarrow> error + real"
  float_round :: "real \<Rightarrow> nat \<Rightarrow> error + real"

text \<open>
  \<open>bool(s)\<close> for an \<open>Optional[str]\<close>: \<open>None\<close> and the empty string are false.
\<close>

definition truthy :: "string option \<Rightarrow> bool" where
  "truthy s = (case s of None \<Rightarrow> False | Some x \<Rightarrow> x \<noteq> [])"

text \<open>
  Lazy iteration. \<open>data.values()\<close> and each \<open>filter(pred, it)\<close> built on it produce
  nothing until \<open>list(...)\<close> consumes them; then the records are taken one by one, in
  order, and each record runs through the predicates from the innermost filter to the
  outermost, stopping at the first predicate that rejects it. A lazy iterable is
  represented by its source list and the test a record has to pass.
\<close>

type_synonym 'a lazy = "'a list \<times> ('a \<Rightarrow> error + bool)"

definition lazy_of :: "'a list \<Rightarrow> 'a lazy" where
  "lazy_of xs = (xs, \<lambda>x. Inr True)"

definition lazy_filter :: "('a \<Rightarrow> error + bool) \<Rightarrow> 'a lazy \<Rightarrow> 'a lazy" where
  "lazy_filter pred it =
     (fst it, \<lambda>x. bind_err (snd it x) (\<lambda>b. if b then pred x else Inr False))"

text \<open>
  Consuming the elements in order with a test that may raise: the first element on which
  the test raises aborts the whole evaluation.
\<close>

fun py_filter :: "('a \<Rightarrow> error + bool) \<Rightarrow> 'a list \<Rightarrow> error + 'a list" where
  "py_filter pred [] = Inr []"
| "py_filter pred (x # xs) =
     (case pred x of
        Inl e \<Rightarrow> Inl e
      | Inr b \<Rightarrow>
          (case py_filter pred xs of
             Inl e \<Rightarrow> Inl e
           | Inr ys \<Rightarrow> Inr (if b then x # ys else ys)))"

definition py_list :: "'a lazy \<Rightarrow> error + 'a list" where
  "py_list it = py_filter (snd it) (fst it)"


subsection \<open>The model class \<open>Patient\<close>\<close>

record Patient =
  id' :: string
  name :: string
  city :: string
  age :: int
  gender :: string
  height :: real
  weight :: real

definition gender_literal :: "string \<Rightarrow> bool" where
  "gender_literal g = (g \<in> set [''male'', ''female'', ''others''])"

text \<open>
  The computed field \<open>bmi\<close>: \<open>round(self.weight / (self.height ** 2), 2)\<close>. Each of the
  three operations may raise; the first that does ends the evaluation.
\<close>

definition bmi :: "python \<Rightarrow> Patient \<Rightarrow> error + real" where
  "bmi py self =
     bind_err (float_pow py (height self) 2) (\<lambda>square.
     bind_err (float_truediv py (weight self) square) (\<lambda>quotient.
       float_round py quotient 2))"

text \<open>
  The computed field \<open>verdict\<close>: the chain of comparisons of the property's body, as a
  function of the value of \<open>self.bmi\<close>, and the property itself, which raises when
  \<open>self.bmi\<close> does.
\<close>

definition verdict_of_bmi :: "real \<Rightarrow> string" where
  "verdict_of_bmi b =
     (if b < 18.5 then ''Underweight''
      else if b < 25 then ''Normal''
      else if b < 30 then ''Overweight''
      else ''Obese'')"

definition verdict :: "python \<Rightarrow> Patient \<Rightarrow> error + string" where
  "verdict py self = bind_err (bmi py self) (\<lambda>b. Inr (verdict_of_bmi b))"

subsection \<open>Stored records and keyword arguments\<close>

text \<open>
  The JSON object stored for one patient. A key may be missing (the module reads the sort
  key with \<open>x.get(sort_by, 0)\<close>); a value that is present has the type the model
  writes.
\<close>

record patient_dict =
  d_name :: "string option"
  d_city :: "string option"
  d_age :: "int option"
  d_gender :: "string option"
  d_height :: "real option"
  d_weight :: "real option"
  d_bmi :: "real option"
  d_verdict :: "string option"

text \<open>
  A field of a sparse model: \<open>Unset\<close> when the request did not mention it, \<open>Given v\<close>
  when it did, where \<open>v\<close> is \<open>None\<close> for an explicit \<open>null\<close>.
\<close>

datatype 'a field = Unset | Given "'a option"

record PatientUpdate =
  u_name :: "string field"
  u_city :: "string field"
  u_age :: "int field"
  u_gender :: "string field"
  u_height :: "real field"
  u_weight :: "real field"

text \<open>The constraints an instance of \<open>PatientUpdate\<close> has passed.\<close>

definition PatientUpdate_valid :: "PatientUpdate \<Rightarrow> bool" where
  "PatientUpdate_valid u =
     ((case u_age u of Given (Some a) \<Rightarrow> 0 < a | _ \<Rightarrow> True) \<and>
      (case u_gender u of Given (Some g) \<Rightarrow> gender_literal g | _ \<Rightarrow> True) \<and>
      (case u_height u of Given (Some h) \<Rightarrow> 0 < h | _ \<Rightarrow> True) \<and>
      (case u_weight u of Given (Some w) \<Rightarrow> 0 < w | _ \<Rightarrow> True))"

text \<open>
  The keyword arguments \<open>**data[patient_id]\<close> of the constructor call in
  \<open>update_patient\<close>: each of the six fields is missing, \<open>None\<close>, or a value. The keys
  \<open>bmi\<close> and \<open>verdict\<close> of the dictionary are extra arguments, which the model ignores.
\<close>

record PatientArgs =
  k_name :: "string field"
  k_city :: "string field"
  k_age :: "int field"
  k_gender :: "string field"
  k_height :: "real field"
  k_weight :: "real field"

text \<open>A required field is satisfied by a value only.\<close>

definition required :: "'a field \<Rightarrow> 'a option" where
  "required x = (case x of Unset \<Rightarrow> None | Given v \<Rightarrow> v)"

text \<open>
  \<open>Patient(id=patient_id, **kwargs)\<close>: every field required, \<open>0 < age < 120\<close>,
  \<open>gender\<close> one of the three literals, \<open>height > 0\<close>, \<open>weight > 0\<close>.
\<close>

definition Patient_init :: "string \<Rightarrow> PatientArgs \<Rightarrow> error + Patient" where
  "Patient_init pid kw =
     (case required (k_name kw) of None \<Rightarrow> Inl ValidationError | Some n \<Rightarrow>
     (case required (k_city kw) of None \<Rightarrow> Inl ValidationError | Some c \<Rightarrow>
     (case required (k_age kw) of None \<Rightarrow> Inl ValidationError | Some a \<Rightarrow>
     (case required (k_gender kw) of None \<Rightarrow> Inl ValidationError | Some g \<Rightarrow>
     (case required (k_height kw) of None \<Rightarrow> Inl ValidationError | Some h \<Rightarrow>
     (case required (k_weight kw) of None \<Rightarrow> Inl ValidationError | Some w \<Rightarrow>
        (if 0 < a \<and> a < 120 \<and> gender_literal g \<and> 0 < h \<and> 0 < w
         then Inr \<lparr>id' = pid, name = n, city = c, age = a, gender = g,
                   height = h, weight = w\<rparr>
         else Inl ValidationError)))))))"

text \<open>The constraints every instance of \<open>Patient\<close> has passed.\<close>

definition Patient_valid :: "Patient \<Rightarrow> bool" where
  "Patient_valid p =
     (0 < age p \<and> age p < 120 \<and> gender_literal (gender p) \<and> 0 < height p \<and> 0 < weight p)"

text \<open>
  \<open>patient.model_dump(exclude=["id"])\<close>: the six fields, then the two computed fields,
  whose properties are evaluated for the dump.
\<close>

definition model_dump :: "python \<Rightarrow> Patient \<Rightarrow> error + patient_dict" where
  "model_dump py p =
     bind_err (bmi py p) (\<lambda>b.
     bind_err (verdict py p) (\<lambda>v.
       Inr \<lparr>d_name = Some (name p), d_city = Some (city p), d_age = Some (age p),
            d_gender = Some (gender p), d_height = Some (height p),
            d_weight = Some (weight p), d_bmi = Some b, d_verdict = Some v\<rparr>))"

subsection \<open>The data file\<close>

type_synonym collection = "(string \<times> patient_dict) list"

text \<open>The file's content; \<open>None\<close> when the file does not exist.\<close>

type_synonym data_file = "collection option"

definition load_data :: "data_file \<Rightarrow> collection" where
  "load_data f = (case f of None \<Rightarrow> [] | Some data \<Rightarrow> data)"

definition save_data :: "collection \<Rightarrow> data_file \<Rightarrow> data_file" where
  "save_data data f = Some data"

subsection \<open>Read handlers\<close>

definition get_all_patients :: "data_file \<Rightarrow> collection" where
  "get_all_patients f = load_data f"

definition get_patient :: "string \<Rightarrow> data_file \<Rightarrow> error + patient_dict" where
  "get_patient patient_id f =
     (let data = load_data f
      in case map_of data patient_id of
           None \<Rightarrow> Inl (HTTPException 404 ''Patient not found'')
         | Some p \<Rightarrow> Inr p)"

text \<open>The four predicates of \<open>filter_patients\<close>; \<open>p[key]\<close> raises on a missing key.\<close>

definition city_is :: "python \<Rightarrow> string \<Rightarrow> patient_dict \<Rightarrow> error + bool" where
  "city_is py c p =
     (case d_city p of
        None \<Rightarrow> Inl (KeyError ''city'')
      | Some v \<Rightarrow> Inr (str_lower py v = str_lower py c))"

definition gender_is :: "string \<Rightarrow> patient_dict \<Rightarrow> error + bool" where
  "gender_is g p =
     (case d_gender p of None \<Rightarrow> Inl (KeyError ''gender'') | Some v \<Rightarrow> Inr (v = g))"

definition age_ge :: "int \<Rightarrow> patient_dict \<Rightarrow> error + bool" where
  "age_ge n p =
     (case d_age p of None \<Rightarrow> Inl (KeyError ''age'') | Some v \<Rightarrow> Inr (n \<le> v))"

definition age_le :: "int \<Rightarrow> patient_dict \<Rightarrow> error + bool" where
  "age_le n p =
     (case d_age p of None \<Rightarrow> Inl (KeyError ''age'') | Some v \<Rightarrow> Inr (v \<le> n))"

text \<open>
  The body of \<open>filter_patients\<close>. The constraints that the signature declares on
  \<open>gender\<close>, \<open>min_age\<close> and \<open>max_age\<close> are not tested by the function.
\<close>

definition filter_patients ::
  "python \<Rightarrow> string option \<Rightarrow> string option \<Rightarrow> int option \<Rightarrow> int option \<Rightarrow> data_file
     \<Rightarrow> error + patient_dict list" where
  "filter_patients py city_q gender_q min_age max_age f =
     (let data = load_data f;
          patients = lazy_of (map snd data);
          patients = (if truthy city_q
                      then lazy_filter (city_is py (the city_q)) patients
                      else patients);
          patients = (if truthy gender_q
                      then lazy_filter (gender_is (the gender_q)) patients
                      else patients);
          patients = (if min_age \<noteq> None
                      then lazy_filter (age_ge (the min_age)) patients
                      else patients);
          patients = (if max_age \<noteq> None
                      then lazy_filter (age_le (the max_age)) patients
                      else patients)
      in py_list patients)"




subsection \<open>Mutating handlers\<close>

text \<open>
  In each of the three handlers that store a dump, an error raised while the dump is
  computed leaves the handler before \<open>save_data\<close> is reached.
\<close>

definition create_patient ::
  "python \<Rightarrow> Patient \<Rightarrow> data_file \<Rightarrow> (error + string) \<times> data_file" where
  "create_patient py patient f =
     (let data = load_data f
      in if map_of data (id' patient) \<noteq> None
         then (Inl (HTTPException 400 ''Patient already exists''), f)
         else
           (case model_dump py patient of
              Inl e \<Rightarrow> (Inl e, f)
            | Inr dump \<Rightarrow>
                let data = AList.update (id' patient) dump data
                in (Inr ''Patient created successfully'', save_data data f)))"

definition replace_patient ::
  "python \<Rightarrow> string \<Rightarrow> Patient \<Rightarrow> data_file \<Rightarrow> (error + string) \<times> data_file" where
  "replace_patient py patient_id patient f =
     (let data = load_data f
      in if patient_id \<noteq> id' patient
         then (Inl (HTTPException 400 ''Patient ID mismatch''), f)
         else if map_of data patient_id = None
         then (Inl (HTTPException 404 ''Patient not found''), f)
         else
           (case model_dump py patient of
              Inl e \<Rightarrow> (Inl e, f)
            | Inr dump \<Rightarrow>
                let data = AList.update patient_id dump data
                in (Inr ''Patient replaced successfully'', save_data data f)))"

text \<open>
  The loop of \<open>update_patient\<close> over \<open>updates.model_dump(exclude_unset=True)\<close>: a field
  that was set overwrites the key in the loaded dictionary, also with \<open>None\<close>; a field
  that was not set leaves the key as it is. The result is read as keyword arguments.
\<close>

definition merge_field :: "'a field \<Rightarrow> 'a option \<Rightarrow> 'a field" where
  "merge_field u d =
     (case u of
        Given v \<Rightarrow> Given v
      | Unset \<Rightarrow> (case d of None \<Rightarrow> Unset | Some x \<Rightarrow> Given (Some x)))"

definition apply_updates :: "PatientUpdate \<Rightarrow> patient_dict \<Rightarrow> PatientArgs" where
  "apply_updates updates d =
     \<lparr>k_name = merge_field (u_name updates) (d_name d),
      k_city = merge_field (u_city updates) (d_city d),
      k_age = merge_field (u_age updates) (d_age d),
      k_gender = merge_field (u_gender updates) (d_gender d),
      k_height = merge_field (u_height updates) (d_height d),
      k_weight = merge_field (u_weight updates) (d_weight d)\<rparr>"

definition update_patient ::
  "python \<Rightarrow> string \<Rightarrow> PatientUpdate \<Rightarrow> data_file \<Rightarrow> (error + string) \<times> data_file" where
  "update_patient py patient_id updates f =
     (let data = load_data f
      in case map_of data patient_id of
           None \<Rightarrow> (Inl (HTTPException 404 ''Patient not found''), f)
         | Some d \<Rightarrow>
             (case Patient_init patient_id (apply_updates updates d) of
                Inl e \<Rightarrow> (Inl e, f)
              | Inr updated_patient \<Rightarrow>
                  (case model_dump py updated_patient of
                     Inl e \<Rightarrow> (Inl e, f)
                   | Inr dump \<Rightarrow>
                       let data = AList.update patient_id dump data
                       in (Inr ''Patient updated successfully'', save_data data f))))"

definition delete_patient :: "string \<Rightarrow> data_file \<Rightarrow> (error + string) \<times> data_file" where
  "delete_patient patient_id f =
     (let data = load_data f
      in if map_of data patient_id = None
         then (Inl (HTTPException 404 ''Patient not found''), f)
         else (Inr ''Patient deleted successfully'', save_data (AList.delete patient_id data) f))"

subsection \<open>Notions used to state the properties\<close>

text \<open>
  The keyword arguments satisfy the model: every field carries a value and the values
  meet the constraints of the data model (age strictly between 0 and 120, gender one of
  the three values, height and weight strictly positive).
\<close>

definition args_valid :: "PatientArgs \<Rightarrow> bool" where
  "args_valid kw =
     ((case k_name kw of Given (Some n) \<Rightarrow> True | _ \<Rightarrow> False) \<and>
      (case k_city kw of Given (Some c) \<Rightarrow> True | _ \<Rightarrow> False) \<and>
      (case k_age kw of Given (Some a) \<Rightarrow> 0 < a \<and> a < 120 | _ \<Rightarrow> False) \<and>
      (case k_gender kw of
         Given (Some g) \<Rightarrow> g = ''male'' \<or> g = ''female'' \<or> g = ''others''
       | _ \<Rightarrow> False) \<and>
      (case k_height kw of Given (Some h) \<Rightarrow> 0 < h | _ \<Rightarrow> False) \<and>
      (case k_weight kw of Given (Some w) \<Rightarrow> 0 < w | _ \<Rightarrow> False))"

text \<open>
  The filter predicates as the specification words them: each predicate that is supplied
  must hold, the city compared without regard to case (equal after \<open>str.lower\<close>), the
  gender exactly, \<open>min_age\<close> and \<open>max_age\<close> as inclusive bounds on the age.
\<close>

definition stated_predicates ::
  "python \<Rightarrow> string option \<Rightarrow> string option \<Rightarrow> int option \<Rightarrow> int option \<Rightarrow> patient_dict
     \<Rightarrow> bool" where
  "stated_predicates py c g mn mx p =
     ((case c of None \<Rightarrow> True
       | Some v \<Rightarrow> map_option (str_lower py) (d_city p) = Some (str_lower py v)) \<and>
      (case g of None \<Rightarrow> True | Some v \<Rightarrow> d_gender p = Some v) \<and>
      (case mn of None \<Rightarrow> True
       | Some n \<Rightarrow> (case d_age p of None \<Rightarrow> False | Some a \<Rightarrow> n \<le> a)) \<and>
      (case mx of None \<Rightarrow> True
       | Some n \<Rightarrow> (case d_age p of None \<Rightarrow> False | Some a \<Rightarrow> a \<le> n)))"

text \<open>The record carries the three keys that \<open>filter_patients\<close> indexes.\<close>

definition has_filter_keys :: "patient_dict \<Rightarrow> bool" where
  "has_filter_keys p = (d_city p \<noteq> None \<and> d_gender p \<noteq> None \<and> d_age p \<noteq> None)"

text \<open>The gender predicate, when supplied, is one of the three values of the enumeration.\<close>

definition gender_in_enum :: "string option \<Rightarrow> bool" where
  "gender_in_enum g = (case g of None \<Rightarrow> True | Some v \<Rightarrow> gender_literal v)"

subsection \<open>A sample of the built-ins, for the examples\<close>

text \<open>
  A case mapping that folds the ASCII letters, and an arithmetic that is exact except
  where a double cannot hold the result of a power: a power below \<open>2 ** -1075\<close> in
  magnitude is \<open>0.0\<close>, one of \<open>2 ** 1024\<close> or more raises \<open>OverflowError\<close>. Division
  by \<open>0.0\<close> raises \<open>ZeroDivisionError\<close>; rounding is to the nearest multiple of
  \<open>10 ** -ndigits\<close>, a tie going to the even neighbour.
\<close>

definition char_lower :: "char \<Rightarrow> char" where
  "char_lower c =
     (case map_of (zip ''ABCDEFGHIJKLMNOPQRSTUVWXYZ'' ''abcdefghijklmnopqrstuvwxyz'') c of
        None \<Rightarrow> c
      | Some l \<Rightarrow> l)"

definition ascii_lower :: "string \<Rightarrow> string" where
  "ascii_lower s = map char_lower s"

definition sample_pow :: "real \<Rightarrow> nat \<Rightarrow> error + real" where
  "sample_pow x n =
     (if 2 ^ 1024 \<le> \<bar>x ^ n\<bar> then Inl OverflowError
      else if \<bar>x ^ n\<bar> < 1 / 2 ^ 1075 then Inr 0
      else Inr (x ^ n))"

definition sample_truediv :: "real \<Rightarrow> real \<Rightarrow> error + real" where
  "sample_truediv x y = (if y = 0 then Inl ZeroDivisionError else Inr (x / y))"

definition round_half_even :: "real \<Rightarrow> int" where
  "round_half_even x =
     (let f = \<lfloor>x\<rfloor>; d = x - of_int f
      in if d < 1 / 2 then f else if 1 / 2 < d then f + 1 else if even f then f else f + 1)"

definition sample_round :: "real \<Rightarrow> nat \<Rightarrow> error + real" where
  "sample_round x ndigits = Inr (of_int (round_half_even (x * 10 ^ ndigits)) / 10 ^ ndigits)"

definition sample_python :: python where
  "sample_python =
     \<lparr>str_lower = ascii_lower, float_pow = sample_pow, float_truediv = sample_truediv,
      float_round = sample_round\<rparr>"

subsection \<open>Example data\<close>

definition asha :: patient_dict where
  "asha = \<lparr>d_name = Some ''Asha'', d_city = Some ''Delhi'', d_age = Some 30,
            d_gender = Some ''female'', d_height = Some 1.75, d_weight = Some 70,
            d_bmi = Some 22.86, d_verdict = Some ''Normal''\<rparr>"

definition ravi :: patient_dict where
  "ravi = \<lparr>d_name = Some ''Ravi'', d_city = Some ''delhi'', d_age = Some 45,
            d_gender = Some ''male'', d_height = Some 1.8, d_weight = Some 100,
            d_bmi = Some 30.86, d_verdict = Some ''Obese''\<rparr>"

text \<open>A record written without the computed fields.\<close>

definition meera :: patient_dict where
  "meera = \<lparr>d_name = Some ''Meera'', d_city = Some ''Mumbai'', d_age = Some 30,
             d_gender = Some ''female'', d_height = Some 1.9, d_weight = Some 46,
             d_bmi = None, d_verdict = None\<rparr>"

definition karan :: patient_dict where
  "karan = \<lparr>d_name = Some ''Karan'', d_city = Some ''DELHI'', d_age = Some 25,
             d_gender = Some ''male'', d_height = Some 1.75, d_weight = Some 70,
             d_bmi = Some 22.86, d_verdict = Some ''Normal''\<rparr>"

definition example_file :: data_file where
  "example_file = Some [(''P001'', asha), (''P002'', ravi), (''P003'', meera), (''P004'', karan)]"

definition new_patient :: Patient where
  "new_patient = \<lparr>id' = ''P009'', name = ''Asha'', city = ''Delhi'', age = 30,
                   gender = ''female'', height = 1.75, weight = 70\<rparr>"

text \<open>A patient whose height passes \<open>height > 0\<close> and whose square is too small for a double.\<close>

definition tiny_patient :: Patient where
  "tiny_patient = \<lparr>id' = ''P010'', name = ''Tiny'', city = ''Delhi'', age = 30,
                    gender = ''male'', height = 1 / 10 ^ 200, weight = 70\<rparr>"

definition asha_replacement :: Patient where
  "asha_replacement = \<lparr>id' = ''P001'', name = ''Asha'', city = ''Pune'', age = 31,
                        gender = ''female'', height = 1.75, weight = 70\<rparr>"

definition no_updates :: PatientUpdate where
  "no_updates = \<lparr>u_name = Unset, u_city = Unset, u_age = Unset, u_gender = Unset,
                  u_height = Unset, u_weight = Unset\<rparr>"

text \<open>A record whose stored computed fields do not agree with its height and weight.\<close>

definition stale_file :: data_file where
  "stale_file = Some [(''P001'', asha\<lparr>d_bmi := Some 99, d_verdict := Some ''Obese''\<rparr>)]"

section \<open>Properties\<close>

subsection \<open>Auxiliary facts\<close>

lemma py_filter_total:
  "\<forall>x\<in>set xs. pred x = Inr (P x) \<Longrightarrow> py_filter pred xs = Inr (filter P xs)"
  by (induction xs) auto

lemma filter_patients_valid:
  assumes enum: "gender_in_enum g"
    and keys: "\<forall>p\<in>set (map snd (load_data f)). has_filter_keys p"
  shows "filter_patients py c g mn mx f =
           Inr (filter (stated_predicates py (if c = Some [] then None else c) g mn mx)
                  (map snd (load_data f)))"
proof -
  define xs where "xs = map snd (load_data f)"
  define it1 where
    "it1 = (if truthy c then lazy_filter (city_is py (the c)) (lazy_of xs) else lazy_of xs)"
  define it2 where "it2 = (if truthy g then lazy_filter (gender_is (the g)) it1 else it1)"
  define it3 where "it3 = (if mn \<noteq> None then lazy_filter (age_ge (the mn)) it2 else it2)"
  define it4 where "it4 = (if mx \<noteq> None then lazy_filter (age_le (the mx)) it3 else it3)"
  have run: "filter_patients py c g mn mx f = py_filter (snd it4) (fst it4)"
    by (simp only: filter_patients_def Let_def py_list_def xs_def [symmetric]
        it1_def [symmetric] it2_def [symmetric] it3_def [symmetric] it4_def [symmetric])
  have src: "fst it4 = xs"
    by (simp add: it4_def it3_def it2_def it1_def lazy_filter_def lazy_of_def)
  have gt: "truthy g \<longleftrightarrow> g \<noteq> None"
    using enum by (auto simp: gender_in_enum_def truthy_def gender_literal_def split: option.splits)
  have t1: "snd it1 x = Inr (case (if c = Some [] then None else c) of None \<Rightarrow> True
              | Some v \<Rightarrow> map_option (str_lower py) (d_city x) = Some (str_lower py v))"
    if "has_filter_keys x" for x
    using that
    by (auto simp: it1_def lazy_filter_def lazy_of_def bind_err_def city_is_def truthy_def
        has_filter_keys_def split: option.splits)
  have t2: "snd it2 x = Inr ((case (if c = Some [] then None else c) of None \<Rightarrow> True
              | Some v \<Rightarrow> map_option (str_lower py) (d_city x) = Some (str_lower py v)) \<and>
              (case g of None \<Rightarrow> True | Some v \<Rightarrow> d_gender x = Some v))"
    if "has_filter_keys x" for x
    using that t1 [OF that] unfolding it2_def gt
    by (auto simp: lazy_filter_def bind_err_def gender_is_def has_filter_keys_def
        split: option.splits)
  have t3: "snd it3 x = Inr ((case (if c = Some [] then None else c) of None \<Rightarrow> True
              | Some v \<Rightarrow> map_option (str_lower py) (d_city x) = Some (str_lower py v)) \<and>
              (case g of None \<Rightarrow> True | Some v \<Rightarrow> d_gender x = Some v) \<and>
              (case mn of None \<Rightarrow> True
               | Some n \<Rightarrow> (case d_age x of None \<Rightarrow> False | Some a \<Rightarrow> n \<le> a)))"
    if "has_filter_keys x" for x
    using that t2 [OF that] unfolding it3_def
    by (auto simp: lazy_filter_def bind_err_def age_ge_def has_filter_keys_def
        split: option.splits)
  have t4: "snd it4 x = Inr (stated_predicates py (if c = Some [] then None else c) g mn mx x)"
    if "has_filter_keys x" for x
    using that t3 [OF that] unfolding it4_def stated_predicates_def
    by (auto simp: lazy_filter_def bind_err_def age_le_def has_filter_keys_def
        split: option.splits)
  have "py_filter (snd it4) xs
          = Inr (filter (stated_predicates py (if c = Some [] then None else c) g mn mx) xs)"
    by (rule py_filter_total) (use keys t4 in \<open>simp add: xs_def\<close>)
  with run src show ?thesis
    by (simp add: xs_def)
qed





lemma Patient_init_invalid:
  "\<not> args_valid kw \<Longrightarrow> Patient_init pid kw = Inl ValidationError"
  by (auto simp: Patient_init_def args_valid_def required_def gender_literal_def
      split: option.splits field.splits)

lemma Patient_init_Inr:
  "Patient_init pid kw = Inr p \<Longrightarrow>
     id' p = pid \<and> Patient_valid p \<and>
     k_name kw = Given (Some (name p)) \<and> k_city kw = Given (Some (city p)) \<and>
     k_age kw = Given (Some (age p)) \<and> k_gender kw = Given (Some (gender p)) \<and>
     k_height kw = Given (Some (height p)) \<and> k_weight kw = Given (Some (weight p))"
  by (auto simp: Patient_init_def required_def Patient_valid_def
      split: option.splits field.splits if_splits)

lemma Patient_init_valid:
  "args_valid kw \<Longrightarrow> \<exists>p. Patient_init pid kw = Inr p"
  by (auto simp: Patient_init_def args_valid_def required_def gender_literal_def
      split: option.splits field.splits)

lemma merge_field_Given:
  "merge_field u d = Given (Some x) \<Longrightarrow> Some x = (case u of Unset \<Rightarrow> d | Given v \<Rightarrow> v)"
  by (auto simp: merge_field_def split: field.splits option.splits)

lemma model_dump_value:
  "bmi py p = Inr b \<Longrightarrow>
     model_dump py p =
       Inr \<lparr>d_name = Some (name p), d_city = Some (city p), d_age = Some (age p),
            d_gender = Some (gender p), d_height = Some (height p),
            d_weight = Some (weight p), d_bmi = Some b,
            d_verdict = Some (verdict_of_bmi b)\<rparr>"
  by (simp add: model_dump_def verdict_def bind_err_def)

lemma model_dump_raises: "bmi py p = Inl e \<Longrightarrow> model_dump py p = Inl e"
  by (simp add: model_dump_def bind_err_def)

lemma update_key_lookup:
  "map_of data k = Some d \<Longrightarrow> map fst (AList.update k v data) = map fst data"
proof -
  assume "map_of data k = Some d"
  then have "k \<in> set (map fst data)"
    by (metis map_of_eq_None_iff option.distinct(1) set_map)
  then show ?thesis
    by (simp add: update_keys)
qed

lemmas example_defs =
  example_file_def asha_def ravi_def meera_def karan_def new_patient_def tiny_patient_def
  asha_replacement_def no_updates_def stale_file_def

lemmas sample_defs =
  sample_python_def sample_pow_def sample_truediv_def sample_round_def round_half_even_def
  ascii_lower_def char_lower_def

lemma sample_bmi_new_patient: "bmi sample_python new_patient = Inr 22.86"
  by (simp add: bmi_def bind_err_def sample_defs new_patient_def Let_def power2_eq_square)

lemma sample_bmi_tiny_patient: "bmi sample_python tiny_patient = Inl ZeroDivisionError"
  by (simp add: bmi_def bind_err_def sample_defs tiny_patient_def power_mult_distrib
      power_one_over)

subsection \<open>The verdict thresholds\<close>

text \<open>
  Claim C2. For every BMI value the verdict is Underweight when bmi < 18.5, Normal when
  18.5 <= bmi < 25, Overweight when 25 <= bmi < 30 and Obese when bmi >= 30. Each
  boundary value belongs to the higher category: 18.5 is Normal, 25 is Overweight, 30 is
  Obese. The verdict of a patient is this function of the patient's BMI.
\<close>

theorem verdict_thresholds:
  "(b < 18.5 \<longrightarrow> verdict_of_bmi b = ''Underweight'') \<and>
   (18.5 \<le> b \<and> b < 25 \<longrightarrow> verdict_of_bmi b = ''Normal'') \<and>
   (25 \<le> b \<and> b < 30 \<longrightarrow> verdict_of_bmi b = ''Overweight'') \<and>
   (30 \<le> b \<longrightarrow> verdict_of_bmi b = ''Obese'') \<and>
   verdict_of_bmi 18.5 = ''Normal'' \<and>
   verdict_of_bmi 25 = ''Overweight'' \<and>
   verdict_of_bmi 30 = ''Obese'' \<and>
   verdict py p = bind_err (bmi py p) (\<lambda>v. Inr (verdict_of_bmi v))"
  by (simp add: verdict_of_bmi_def verdict_def)

theorem verdict_thresholds_witness:
  "verdict_of_bmi 17 = ''Underweight'' \<and> verdict_of_bmi 22.86 = ''Normal'' \<and>
   verdict_of_bmi 27 = ''Overweight'' \<and> verdict_of_bmi 41 = ''Obese''"
  using verdict_thresholds [of 17] verdict_thresholds [of "22.86"]
    verdict_thresholds [of 27] verdict_thresholds [of 41]
  by simp

subsection \<open>Partial update\<close>

text \<open>
  Claim C3. For an existing record and a partial update whose merged result violates a
  validation constraint (for example an age of 120 or more, such as 150), the update
  fails with a validation error and the file is left exactly as it was: no field of the
  partial update is persisted.
\<close>

theorem update_invalid_leaves_file:
  assumes "map_of (load_data f) patient_id = Some d"
  shows "(\<not> args_valid (apply_updates updates d) \<longrightarrow>
            update_patient py patient_id updates f = (Inl ValidationError, f)) \<and>
         (u_age updates = Given (Some a) \<and> 120 \<le> a \<longrightarrow>
            update_patient py patient_id updates f = (Inl ValidationError, f))"
proof -
  have inv: "update_patient py patient_id updates f = (Inl ValidationError, f)"
    if "\<not> args_valid (apply_updates updates d)"
    using assms Patient_init_invalid [OF that, of patient_id]
    by (simp add: update_patient_def Let_def)
  have "\<not> args_valid (apply_updates updates d)"
    if "u_age updates = Given (Some a)" "120 \<le> a"
    using that by (simp add: args_valid_def apply_updates_def merge_field_def)
  with inv show ?thesis by blast
qed

theorem update_invalid_leaves_file_witness:
  "map_of (load_data example_file) ''P001'' = Some asha \<and>
   PatientUpdate_valid (no_updates\<lparr>u_age := Given (Some 150)\<rparr>) \<and>
   \<not> args_valid (apply_updates (no_updates\<lparr>u_age := Given (Some 150)\<rparr>) asha) \<and>
   update_patient sample_python ''P001'' (no_updates\<lparr>u_age := Given (Some 150)\<rparr>) example_file
     = (Inl ValidationError, example_file)"
proof -
  have h: "map_of (load_data example_file) ''P001'' = Some asha"
    by (simp add: load_data_def example_file_def)
  have v: "PatientUpdate_valid (no_updates\<lparr>u_age := Given (Some 150)\<rparr>)"
    by (simp add: PatientUpdate_valid_def no_updates_def)
  have n: "\<not> args_valid (apply_updates (no_updates\<lparr>u_age := Given (Some 150)\<rparr>) asha)"
    by (simp add: args_valid_def apply_updates_def merge_field_def no_updates_def)
  from update_invalid_leaves_file
         [OF h, of "no_updates\<lparr>u_age := Given (Some 150)\<rparr>" sample_python 150] h v n
  show ?thesis by simp
qed

text \<open>
  Claim C4. For an existing record, every successful partial update stores, under the
  same id, the record of a valid patient: each of the six fields holds the supplied value
  when the update supplies one and the existing record's value otherwise, bmi is the BMI
  computed from that patient and verdict is the verdict of that BMI. The ids of the
  collection and their order are unchanged, and so is every other record. The update
  succeeds exactly when the merged fields satisfy the model and the BMI of the merged
  patient evaluates; when the BMI computation raises, the update fails with that error
  and the file is left as it was.
\<close>

theorem update_changes_supplied_fields_only:
  assumes "map_of (load_data f) patient_id = Some d"
  shows "(\<forall>msg f'. update_patient py patient_id updates f = (Inr msg, f') \<longrightarrow>
            (\<exists>p b. Patient_valid p \<and> id' p = patient_id \<and> bmi py p = Inr b \<and>
               map_of (load_data f') patient_id
                 = Some \<lparr>d_name = Some (name p), d_city = Some (city p), d_age = Some (age p),
                    d_gender = Some (gender p), d_height = Some (height p),
                    d_weight = Some (weight p), d_bmi = Some b,
                    d_verdict = Some (verdict_of_bmi b)\<rparr> \<and>
               Some (name p) = (case u_name updates of Unset \<Rightarrow> d_name d | Given v \<Rightarrow> v) \<and>
               Some (city p) = (case u_city updates of Unset \<Rightarrow> d_city d | Given v \<Rightarrow> v) \<and>
               Some (age p) = (case u_age updates of Unset \<Rightarrow> d_age d | Given v \<Rightarrow> v) \<and>
               Some (gender p)
                 = (case u_gender updates of Unset \<Rightarrow> d_gender d | Given v \<Rightarrow> v) \<and>
               Some (height p)
                 = (case u_height updates of Unset \<Rightarrow> d_height d | Given v \<Rightarrow> v) \<and>
               Some (weight p)
                 = (case u_weight updates of Unset \<Rightarrow> d_weight d | Given v \<Rightarrow> v) \<and>
               map fst (load_data f') = map fst (load_data f) \<and>
               (\<forall>k. k \<noteq> patient_id \<longrightarrow> map_of (load_data f') k = map_of (load_data f) k))) \<and>
         ((\<exists>f'. update_patient py patient_id updates f
                   = (Inr ''Patient updated successfully'', f')) \<longleftrightarrow>
          (args_valid (apply_updates updates d) \<and>
           (\<exists>p b. Patient_init patient_id (apply_updates updates d) = Inr p \<and>
                   bmi py p = Inr b))) \<and>
         (\<forall>p e. Patient_init patient_id (apply_updates updates d) = Inr p \<and> bmi py p = Inl e \<longrightarrow>
            update_patient py patient_id updates f = (Inl e, f))"
proof (intro conjI allI impI)
  fix msg f'
  assume run: "update_patient py patient_id updates f = (Inr msg, f')"
  with assms obtain p dump
    where init: "Patient_init patient_id (apply_updates updates d) = Inr p"
      and dump: "model_dump py p = Inr dump"
      and f': "f' = Some (AList.update patient_id dump (load_data f))"
    by (auto simp: update_patient_def Let_def save_data_def split: sum.splits)
  from dump obtain b where b: "bmi py p = Inr b"
    by (cases "bmi py p") (simp_all add: model_dump_raises)
  have stored: "dump = \<lparr>d_name = Some (name p), d_city = Some (city p), d_age = Some (age p),
                    d_gender = Some (gender p), d_height = Some (height p),
                    d_weight = Some (weight p), d_bmi = Some b,
                    d_verdict = Some (verdict_of_bmi b)\<rparr>"
    using model_dump_value [OF b] dump by simp
  note facts = Patient_init_Inr [OF init]
  have keys: "map fst (load_data f') = map fst (load_data f)"
    using update_key_lookup [OF assms] by (simp add: f' load_data_def)
  have others: "\<forall>k. k \<noteq> patient_id \<longrightarrow> map_of (load_data f') k = map_of (load_data f) k"
    by (simp add: f' load_data_def update_conv')
  have here: "map_of (load_data f') patient_id = Some \<lparr>d_name = Some (name p), d_city = Some (city p), d_age = Some (age p),
                    d_gender = Some (gender p), d_height = Some (height p),
                    d_weight = Some (weight p), d_bmi = Some b,
                    d_verdict = Some (verdict_of_bmi b)\<rparr>"
    by (simp add: f' load_data_def update_conv' stored)
  have flds:
    "Some (name p) = (case u_name updates of Unset \<Rightarrow> d_name d | Given v \<Rightarrow> v)"
    "Some (city p) = (case u_city updates of Unset \<Rightarrow> d_city d | Given v \<Rightarrow> v)"
    "Some (age p) = (case u_age updates of Unset \<Rightarrow> d_age d | Given v \<Rightarrow> v)"
    "Some (gender p) = (case u_gender updates of Unset \<Rightarrow> d_gender d | Given v \<Rightarrow> v)"
    "Some (height p) = (case u_height updates of Unset \<Rightarrow> d_height d | Given v \<Rightarrow> v)"
    "Some (weight p) = (case u_weight updates of Unset \<Rightarrow> d_weight d | Given v \<Rightarrow> v)"
    using facts by (simp_all add: apply_updates_def merge_field_Given)
  from facts b keys others here flds
  show "(\<exists>p b. Patient_valid p \<and> id' p = patient_id \<and> bmi py p = Inr b \<and>
               map_of (load_data f') patient_id
                 = Some \<lparr>d_name = Some (name p), d_city = Some (city p), d_age = Some (age p),
                    d_gender = Some (gender p), d_height = Some (height p),
                    d_weight = Some (weight p), d_bmi = Some b,
                    d_verdict = Some (verdict_of_bmi b)\<rparr> \<and>
               Some (name p) = (case u_name updates of Unset \<Rightarrow> d_name d | Given v \<Rightarrow> v) \<and>
               Some (city p) = (case u_city updates of Unset \<Rightarrow> d_city d | Given v \<Rightarrow> v) \<and>
               Some (age p) = (case u_age updates of Unset \<Rightarrow> d_age d | Given v \<Rightarrow> v) \<and>
               Some (gender p)
                 = (case u_gender updates of Unset \<Rightarrow> d_gender d | Given v \<Rightarrow> v) \<and>
               Some (height p)
                 = (case u_height updates of Unset \<Rightarrow> d_height d | Given v \<Rightarrow> v) \<and>
               Some (weight p)
                 = (case u_weight updates of Unset \<Rightarrow> d_weight d | Given v \<Rightarrow> v) \<and>
               map fst (load_data f') = map fst (load_data f) \<and>
               (\<forall>k. k \<noteq> patient_id \<longrightarrow> map_of (load_data f') k = map_of (load_data f) k))"
    by blast
next
  show "(\<exists>f'. update_patient py patient_id updates f
                 = (Inr ''Patient updated successfully'', f')) \<longleftrightarrow>
        (args_valid (apply_updates updates d) \<and>
         (\<exists>p b. Patient_init patient_id (apply_updates updates d) = Inr p \<and> bmi py p = Inr b))"
  proof
    assume "\<exists>f'. update_patient py patient_id updates f
                    = (Inr ''Patient updated successfully'', f')"
    then obtain f' where
      run: "update_patient py patient_id updates f = (Inr ''Patient updated successfully'', f')"
      by blast
    with assms obtain p dump
      where init: "Patient_init patient_id (apply_updates updates d) = Inr p"
        and dump: "model_dump py p = Inr dump"
      by (auto simp: update_patient_def Let_def split: sum.splits)
    from dump obtain b where b: "bmi py p = Inr b"
      by (cases "bmi py p") (simp_all add: model_dump_raises)
    have "args_valid (apply_updates updates d)"
      using init Patient_init_invalid [of "apply_updates updates d" patient_id] by auto
    with init b
    show "args_valid (apply_updates updates d) \<and>
          (\<exists>p b. Patient_init patient_id (apply_updates updates d) = Inr p \<and> bmi py p = Inr b)"
      by blast
  next
    assume "args_valid (apply_updates updates d) \<and>
          (\<exists>p b. Patient_init patient_id (apply_updates updates d) = Inr p \<and> bmi py p = Inr b)"
    then obtain p b where init: "Patient_init patient_id (apply_updates updates d) = Inr p"
      and b: "bmi py p = Inr b"
      by blast
    with assms show "\<exists>f'. update_patient py patient_id updates f
                             = (Inr ''Patient updated successfully'', f')"
      by (simp add: update_patient_def Let_def model_dump_value [OF b])
  qed
next
  fix p e
  assume "Patient_init patient_id (apply_updates updates d) = Inr p \<and> bmi py p = Inl e"
  with assms show "update_patient py patient_id updates f = (Inl e, f)"
    by (simp add: update_patient_def Let_def model_dump_raises)
qed

theorem update_changes_supplied_fields_only_witness:
  "map_of (load_data example_file) ''P001'' = Some asha \<and>
   PatientUpdate_valid (no_updates\<lparr>u_weight := Given (Some 80)\<rparr>) \<and>
   args_valid (apply_updates (no_updates\<lparr>u_weight := Given (Some 80)\<rparr>) asha) \<and>
   update_patient sample_python ''P001'' (no_updates\<lparr>u_weight := Given (Some 80)\<rparr>) example_file
     = (Inr ''Patient updated successfully'',
        Some [(''P001'', asha\<lparr>d_weight := Some 80, d_bmi := Some 26.12,
                                 d_verdict := Some ''Overweight''\<rparr>),
              (''P002'', ravi), (''P003'', meera), (''P004'', karan)]) \<and>
   PatientUpdate_valid (no_updates\<lparr>u_height := Given (Some (1 / 10 ^ 200))\<rparr>) \<and>
   update_patient sample_python ''P001''
       (no_updates\<lparr>u_height := Given (Some (1 / 10 ^ 200))\<rparr>) example_file
     = (Inl ZeroDivisionError, example_file)"
proof -
  let ?u = "no_updates\<lparr>u_weight := Given (Some 80)\<rparr>"
  let ?t = "no_updates\<lparr>u_height := Given (Some (1 / 10 ^ 200))\<rparr>"
  let ?p = "\<lparr>id' = ''P001'', name = ''Asha'', city = ''Delhi'', age = 30,
             gender = ''female'', height = 1.75, weight = 80\<rparr>"
  let ?q = "\<lparr>id' = ''P001'', name = ''Asha'', city = ''Delhi'', age = 30,
             gender = ''female'', height = 1 / 10 ^ 200, weight = 70\<rparr>"
  have h: "map_of (load_data example_file) ''P001'' = Some asha"
    by (simp add: load_data_def example_file_def)
  have v: "PatientUpdate_valid ?u" "PatientUpdate_valid ?t"
    by (simp_all add: PatientUpdate_valid_def no_updates_def)
  have a: "args_valid (apply_updates ?u asha)"
    by (simp add: args_valid_def apply_updates_def merge_field_def no_updates_def asha_def)
  have i: "Patient_init ''P001'' (apply_updates ?u asha) = Inr ?p"
    by (simp add: Patient_init_def required_def apply_updates_def merge_field_def
        no_updates_def asha_def gender_literal_def)
  have j: "Patient_init ''P001'' (apply_updates ?t asha) = Inr ?q"
    by (simp add: Patient_init_def required_def apply_updates_def merge_field_def
        no_updates_def asha_def gender_literal_def)
  have c: "bmi sample_python ?q = Inl ZeroDivisionError"
    by (simp add: bmi_def bind_err_def sample_defs power_mult_distrib power_one_over)
  have r: "update_patient sample_python ''P001'' ?u example_file
     = (Inr ''Patient updated successfully'',
        Some [(''P001'', asha\<lparr>d_weight := Some 80, d_bmi := Some 26.12,
                                 d_verdict := Some ''Overweight''\<rparr>),
              (''P002'', ravi), (''P003'', meera), (''P004'', karan)])"
    using h
    by (simp add: update_patient_def i)
      (simp add: Let_def save_data_def model_dump_def verdict_def bmi_def bind_err_def
        sample_defs load_data_def example_file_def asha_def verdict_of_bmi_def
        power2_eq_square)
  from update_changes_supplied_fields_only [OF h, of sample_python ?t] j c
  have t: "update_patient sample_python ''P001'' ?t example_file
             = (Inl ZeroDivisionError, example_file)"
    by blast
  from update_changes_supplied_fields_only [OF h, of sample_python ?u] h v a r t
  show ?thesis by simp
qed

subsection \<open>Create and read\<close>

text \<open>
  Claim C5, as amended. For a valid patient whose id is not in the collection: when the
  BMI computation of the patient returns a value, create succeeds and a following read of
  that id returns the record that create stored, whose six base fields are those of the
  input, whose bmi is that value and whose verdict is the verdict of that value, both
  computed by create and persisted with the record; the read returns the stored record
  as it is. When the BMI computation raises, create fails with that error and the file is
  left as it was.
\<close>

theorem create_then_get_returns_stored_dump:
  assumes "Patient_valid patient" and "map_of (load_data f) (id' patient) = None"
  shows "(\<forall>b. bmi py patient = Inr b \<longrightarrow>
            (\<exists>f'. create_patient py patient f = (Inr ''Patient created successfully'', f') \<and>
               map_of (load_data f') (id' patient)
                 = Some \<lparr>d_name = Some (name patient), d_city = Some (city patient), d_age = Some (age patient),
                     d_gender = Some (gender patient), d_height = Some (height patient),
                     d_weight = Some (weight patient), d_bmi = Some b,
                     d_verdict = Some (verdict_of_bmi b)\<rparr> \<and>
               get_patient (id' patient) f'
                 = Inr \<lparr>d_name = Some (name patient), d_city = Some (city patient), d_age = Some (age patient),
                     d_gender = Some (gender patient), d_height = Some (height patient),
                     d_weight = Some (weight patient), d_bmi = Some b,
                     d_verdict = Some (verdict_of_bmi b)\<rparr>)) \<and>
         (\<forall>e. bmi py patient = Inl e \<longrightarrow> create_patient py patient f = (Inl e, f))"
proof (intro conjI allI impI)
  fix b
  assume b: "bmi py patient = Inr b"
  show "\<exists>f'. create_patient py patient f = (Inr ''Patient created successfully'', f') \<and>
               map_of (load_data f') (id' patient)
                 = Some \<lparr>d_name = Some (name patient), d_city = Some (city patient), d_age = Some (age patient),
                     d_gender = Some (gender patient), d_height = Some (height patient),
                     d_weight = Some (weight patient), d_bmi = Some b,
                     d_verdict = Some (verdict_of_bmi b)\<rparr> \<and>
               get_patient (id' patient) f'
                 = Inr \<lparr>d_name = Some (name patient), d_city = Some (city patient), d_age = Some (age patient),
                     d_gender = Some (gender patient), d_height = Some (height patient),
                     d_weight = Some (weight patient), d_bmi = Some b,
                     d_verdict = Some (verdict_of_bmi b)\<rparr>"
    using assms(2)
    by (simp add: create_patient_def get_patient_def Let_def save_data_def load_data_def
        update_conv' model_dump_value [OF b])
next
  fix e
  assume "bmi py patient = Inl e"
  with assms(2) show "create_patient py patient f = (Inl e, f)"
    by (simp add: create_patient_def Let_def model_dump_raises)
qed

theorem create_then_get_returns_stored_dump_witness:
  "Patient_valid new_patient \<and> map_of (load_data example_file) (id' new_patient) = None \<and>
   bmi sample_python new_patient = Inr 22.86 \<and>
   (\<exists>f'. create_patient sample_python new_patient example_file
            = (Inr ''Patient created successfully'', f') \<and>
      get_patient ''P009'' f' = Inr asha) \<and>
   Patient_valid tiny_patient \<and> map_of (load_data example_file) (id' tiny_patient) = None \<and>
   bmi sample_python tiny_patient = Inl ZeroDivisionError \<and>
   create_patient sample_python tiny_patient example_file = (Inl ZeroDivisionError, example_file)"
proof -
  have v: "Patient_valid new_patient" "Patient_valid tiny_patient"
    by (simp_all add: Patient_valid_def new_patient_def tiny_patient_def gender_literal_def)
  have n: "map_of (load_data example_file) (id' new_patient) = None"
    "map_of (load_data example_file) (id' tiny_patient) = None"
    by (simp_all add: load_data_def example_file_def new_patient_def tiny_patient_def)
  have d: "\<lparr>d_name = Some (name new_patient), d_city = Some (city new_patient), d_age = Some (age new_patient),
           d_gender = Some (gender new_patient), d_height = Some (height new_patient),
           d_weight = Some (weight new_patient), d_bmi = Some 22.86,
           d_verdict = Some (verdict_of_bmi 22.86)\<rparr> = asha"
    by (simp add: new_patient_def asha_def verdict_of_bmi_def)
  have i: "id' new_patient = ''P009''"
    by (simp add: new_patient_def)
  from create_then_get_returns_stored_dump [OF v(1) n(1), of sample_python]
    sample_bmi_new_patient
  have "\<exists>f'. create_patient sample_python new_patient example_file
               = (Inr ''Patient created successfully'', f') \<and>
             map_of (load_data f') (id' new_patient)
               = Some \<lparr>d_name = Some (name new_patient), d_city = Some (city new_patient), d_age = Some (age new_patient),
           d_gender = Some (gender new_patient), d_height = Some (height new_patient),
           d_weight = Some (weight new_patient), d_bmi = Some 22.86,
           d_verdict = Some (verdict_of_bmi 22.86)\<rparr> \<and>
             get_patient (id' new_patient) f'
               = Inr \<lparr>d_name = Some (name new_patient), d_city = Some (city new_patient), d_age = Some (age new_patient),
           d_gender = Some (gender new_patient), d_height = Some (height new_patient),
           d_weight = Some (weight new_patient), d_bmi = Some 22.86,
           d_verdict = Some (verdict_of_bmi 22.86)\<rparr>"
    by blast
  then have ok: "\<exists>f'. create_patient sample_python new_patient example_file
                    = (Inr ''Patient created successfully'', f') \<and>
              get_patient ''P009'' f' = Inr asha"
    unfolding d i by blast
  from create_then_get_returns_stored_dump [OF v(2) n(2), of sample_python]
    sample_bmi_tiny_patient
  have bad: "create_patient sample_python tiny_patient example_file
               = (Inl ZeroDivisionError, example_file)"
    by blast
  from v n sample_bmi_new_patient sample_bmi_tiny_patient ok bad show ?thesis
    by blast
qed

text \<open>
  The claim as stated fails: the computed fields are stored copies. After creating a
  patient in an absent file, the file holds bmi and verdict beside the base fields; and a
  read returns whatever is stored, also when the stored bmi and verdict do not agree
  with the stored height and weight.
\<close>

theorem get_returns_stored_copies_counterexample:
  "snd (create_patient sample_python new_patient None) = Some [(''P009'', asha)] \<and>
   d_bmi asha = Some 22.86 \<and> d_verdict asha = Some ''Normal'' \<and>
   get_patient ''P001'' stale_file
     = Inr (asha\<lparr>d_bmi := Some 99, d_verdict := Some ''Obese''\<rparr>)"
  by (simp add: create_patient_def get_patient_def load_data_def save_data_def
      model_dump_value [OF sample_bmi_new_patient] stale_file_def)
    (simp add: new_patient_def asha_def verdict_of_bmi_def)

text \<open>
  Claim C6. When the id of the record is already present in the collection, create fails
  with the conflict error (status 400, "Patient already exists") and the file is left as
  it was: the existing record is not modified and nothing is written.
\<close>

theorem create_existing_conflict:
  assumes "map_of (load_data f) (id' patient) = Some d"
  shows "create_patient py patient f = (Inl (HTTPException 400 ''Patient already exists''), f)"
  using assms by (simp add: create_patient_def Let_def)

theorem create_existing_conflict_witness:
  "map_of (load_data example_file) (id' asha_replacement) = Some asha \<and>
   create_patient sample_python asha_replacement example_file
     = (Inl (HTTPException 400 ''Patient already exists''), example_file)"
proof -
  have h: "map_of (load_data example_file) (id' asha_replacement) = Some asha"
    by (simp add: load_data_def example_file_def asha_replacement_def)
  from create_existing_conflict [OF h, of sample_python] h show ?thesis by simp
qed

subsection \<open>Replace\<close>

text \<open>
  Claim C7. When the id in the record body differs from the path identifier, replace
  fails with the invalid-argument error (status 400, "Patient ID mismatch") whether or
  not the path identifier exists in the store. When the ids agree and the identifier is
  absent from the store, replace fails with not-found (status 404). In both cases the
  file is left as it was.
\<close>

theorem replace_failures:
  "(patient_id \<noteq> id' patient \<longrightarrow>
      replace_patient py patient_id patient f
        = (Inl (HTTPException 400 ''Patient ID mismatch''), f)) \<and>
   (patient_id = id' patient \<and> map_of (load_data f) patient_id = None \<longrightarrow>
      replace_patient py patient_id patient f
        = (Inl (HTTPException 404 ''Patient not found''), f))"
  by (auto simp: replace_patient_def Let_def)

theorem replace_failures_witness:
  "''P002'' \<noteq> id' asha_replacement \<and> map_of (load_data example_file) ''P002'' \<noteq> None \<and>
   replace_patient sample_python ''P002'' asha_replacement example_file
     = (Inl (HTTPException 400 ''Patient ID mismatch''), example_file) \<and>
   ''P777'' \<noteq> id' asha_replacement \<and> map_of (load_data example_file) ''P777'' = None \<and>
   replace_patient sample_python ''P777'' asha_replacement example_file
     = (Inl (HTTPException 400 ''Patient ID mismatch''), example_file) \<and>
   ''P009'' = id' new_patient \<and> map_of (load_data example_file) ''P009'' = None \<and>
   replace_patient sample_python ''P009'' new_patient example_file
     = (Inl (HTTPException 404 ''Patient not found''), example_file)"
proof -
  have a: "''P002'' \<noteq> id' asha_replacement" "''P777'' \<noteq> id' asha_replacement"
    "''P009'' = id' new_patient"
    by (simp_all add: asha_replacement_def new_patient_def)
  have b: "map_of (load_data example_file) ''P002'' \<noteq> None"
    "map_of (load_data example_file) ''P777'' = None"
    "map_of (load_data example_file) ''P009'' = None"
    by (simp_all add: load_data_def example_file_def)
  from replace_failures [of "''P002''" asha_replacement sample_python example_file]
    replace_failures [of "''P777''" asha_replacement sample_python example_file]
    replace_failures [of "''P009''" new_patient sample_python example_file] a b
  show ?thesis by simp
qed

subsection \<open>Filter\<close>

text \<open>
  Claim C8, as amended. For every collection whose records carry city, gender and age, and
  every combination of the optional predicates city, gender (a value of the enumeration),
  \<open>min_age\<close> and \<open>max_age\<close>, filter returns exactly the records, in the order of the
  collection, that satisfy all supplied predicates: city compared without regard to case,
  gender exactly, \<open>min_age\<close> and \<open>max_age\<close> as inclusive bounds on the age; a city
  supplied as the empty string counts as not supplied. With no predicate supplied the
  full collection is returned.
\<close>

theorem filter_patients_conjunction:
  "(gender_in_enum g \<and> (\<forall>p\<in>set (map snd (load_data f)). has_filter_keys p) \<longrightarrow>
      filter_patients py c g mn mx f =
        Inr (filter (stated_predicates py (if c = Some [] then None else c) g mn mx)
               (map snd (load_data f)))) \<and>
   filter_patients py None None None None f = Inr (map snd (load_data f))"
proof (intro conjI impI)
  assume "gender_in_enum g \<and> (\<forall>p\<in>set (map snd (load_data f)). has_filter_keys p)"
  then show "filter_patients py c g mn mx f =
        Inr (filter (stated_predicates py (if c = Some [] then None else c) g mn mx)
               (map snd (load_data f)))"
    using filter_patients_valid by blast
next
  have "py_filter (\<lambda>x. Inr True) xs = Inr xs" for xs :: "patient_dict list"
    using py_filter_total [of xs "\<lambda>x. Inr True" "\<lambda>x. True"] by simp
  then show "filter_patients py None None None None f = Inr (map snd (load_data f))"
    by (simp add: filter_patients_def truthy_def py_list_def lazy_of_def)
qed

theorem filter_patients_conjunction_witness:
  "gender_in_enum (Some ''male'') \<and>
   list_all has_filter_keys (map snd (load_data example_file)) \<and>
   filter_patients sample_python (Some ''Delhi'') (Some ''male'') (Some 20) (Some 40) example_file
     = Inr [karan] \<and>
   filter_patients sample_python (Some ''Delhi'') None None None example_file
     = Inr [asha, ravi, karan] \<and>
   filter_patients sample_python None None (Some 30) (Some 30) example_file
     = Inr [asha, meera]"
proof -
  have v: "gender_in_enum (Some ''male'')" "gender_in_enum None"
    by (simp_all add: gender_in_enum_def gender_literal_def)
  have k: "\<forall>p\<in>set (map snd (load_data example_file)). has_filter_keys p"
    by (simp add: load_data_def has_filter_keys_def example_defs)
  have e1: "filter (stated_predicates sample_python (Some ''Delhi'') (Some ''male'')
                      (Some 20) (Some 40))
              (map snd (load_data example_file)) = [karan]"
    by (simp add: load_data_def stated_predicates_def sample_defs example_defs)
  have e2: "filter (stated_predicates sample_python (Some ''Delhi'') None None None)
              (map snd (load_data example_file)) = [asha, ravi, karan]"
    by (simp add: load_data_def stated_predicates_def sample_defs example_defs)
  have e3: "filter (stated_predicates sample_python None None (Some 30) (Some 30))
              (map snd (load_data example_file)) = [asha, meera]"
    by (simp add: load_data_def stated_predicates_def sample_defs example_defs)
  from filter_patients_conjunction
         [of "Some ''male''" example_file sample_python "Some ''Delhi''" "Some 20" "Some 40"]
       filter_patients_conjunction [of None example_file sample_python "Some ''Delhi''" None None]
       filter_patients_conjunction [of None example_file sample_python None "Some 30" "Some 30"]
       v k e1 e2 e3
  show ?thesis by (simp add: list_all_iff)
qed

text \<open>
  The claim as stated fails: a city predicate that is supplied as the empty string is not
  applied. The whole collection is returned, although no record has an empty city.
\<close>

theorem filter_patients_as_stated_counterexample:
  "filter_patients sample_python (Some []) None None None example_file
     = Inr [asha, ravi, meera, karan] \<and>
   filter (stated_predicates sample_python (Some []) None None None)
     (map snd (load_data example_file)) = []"
  by (simp add: filter_patients_def truthy_def load_data_def py_list_def lazy_of_def
      stated_predicates_def sample_defs example_defs)

text \<open>
  Claim C10. Calling filter with the city parameter equal to the empty string behaves as
  omitting the city predicate: the result is the same for every collection and every
  setting of the other predicates.
\<close>

theorem filter_empty_city_as_omitted:
  "filter_patients py (Some []) gender_q min_age max_age f
     = filter_patients py None gender_q min_age max_age f"
  by (simp add: filter_patients_def truthy_def)

subsection \<open>Sort\<close>



end
